theory Spec2Isabelle
  imports Complex_Main
begin

section \<open>Source maps for catalog sources: \<^verbatim>\<open>fermipy/diffuse/gt_srcmaps_catalog.py\<close>\<close>

text \<open>
  The module holds two classes. \<^verbatim>\<open>SrcmapsCatalog_SG.build_job_configs\<close> splits every
  catalog into blocks of \<^verbatim>\<open>nsrc\<close> sources and builds one job configuration per
  (catalog, component, block). \<^verbatim>\<open>GtSrcmapsCatalog.run_analysis\<close> is the worker of one
  job: it walks the block of sources and adds, saves and deletes one source at a time.

  The likelihood engine (\<^verbatim>\<open>pyLikelihood\<close>, \<^verbatim>\<open>BinnedAnalysis\<close>), the name factory, the
  component and catalog loaders and \<^verbatim>\<open>make_nfs_path\<close> are not part of the module. What they
  return is a parameter of the model (the record \<open>env\<close> below); the calls the worker makes
  on the engine are recorded in a trace.
\<close>

subsection \<open>Python primitives used by the module\<close>

datatype py_error = ZeroDivisionError | IndexError

text \<open>Decimal digits of a natural number, most significant first.\<close>

fun digits :: "nat \<Rightarrow> string" where
  "digits n = (if n < 10 then [''0123456789'' ! n]
               else digits (n div 10) @ [''0123456789'' ! (n mod 10)])"

declare digits.simps [simp del]

text \<open>\<^verbatim>\<open>"%i" % i\<close>.\<close>

definition fmt_i :: "int \<Rightarrow> string" where
  "fmt_i i = (if i < 0 then ''-'' @ digits (nat (- i)) else digits (nat i))"

text \<open>\<^verbatim>\<open>"%0wi" % i\<close>: the sign first, then zeros up to the width \<open>w\<close>, then the digits.\<close>

definition zero_pad :: "nat \<Rightarrow> string \<Rightarrow> string" where
  "zero_pad w s = replicate (w - length s) (CHR ''0'') @ s"

definition fmt_0i :: "nat \<Rightarrow> int \<Rightarrow> string" where
  "fmt_0i w i = (if i < 0 then ''-'' @ zero_pad (w - 1) (digits (nat (- i)))
                 else zero_pad w (digits (nat i)))"

text \<open>
  \<^verbatim>\<open>s.replace(old, new)\<close>: every occurrence of \<open>old\<close>, found from the left and not
  overlapping, is replaced. With an empty \<open>old\<close> Python puts \<open>new\<close> before every
  character and at the end.
\<close>

function replace_from :: "string \<Rightarrow> string \<Rightarrow> string \<Rightarrow> string" where
  "replace_from old new s =
     (if old = [] \<or> s = [] then s
      else if take (length old) s = old
           then new @ replace_from old new (drop (length old) s)
           else hd s # replace_from old new (tl s))"
  by pat_completeness auto
termination
  by (relation "measure (\<lambda>(old, new, s). length s)") auto

declare replace_from.simps [simp del]

definition str_replace :: "string \<Rightarrow> string \<Rightarrow> string \<Rightarrow> string" where
  "str_replace s old new =
     (if old = [] then new @ concat (map (\<lambda>c. c # new) s) else replace_from old new s)"

text \<open>\<^verbatim>\<open>range(n)\<close>: the integers \<open>0, ..., n - 1\<close>, none when \<open>n \<le> 0\<close>.\<close>

definition py_range :: "int \<Rightarrow> int list" where
  "py_range n = map int [0..<nat n]"

text \<open>\<^verbatim>\<open>xrange(a, b)\<close>: the integers \<open>a, ..., b - 1\<close>, none when \<open>b \<le> a\<close>.\<close>

definition xrange :: "int \<Rightarrow> int \<Rightarrow> int list" where
  "xrange a b = map (\<lambda>k. a + int k) [0..<nat (b - a)]"

subsection \<open>Data of the job generator\<close>

text \<open>The attributes of a binning component that the generator reads.\<close>

record component =
  zmax :: int
  ebin_name :: string
  evtype_name :: string
  coordsys :: string
  evtype :: int

text \<open>
  A catalog: \<open>catalog_table\<close> is \<^verbatim>\<open>catalog_info.catalog.table\<close> (one row per source),
  \<open>roi_sources\<close> is \<^verbatim>\<open>roi_model.sources\<close>.
\<close>

record catalog_info =
  srcmdl_name :: string
  catalog_table :: "string list"
  roi_sources :: "string list"

text \<open>The keyword arguments handed to the name factory.\<close>

record name_keys =
  nk_zcut :: string
  nk_sourcekey :: string
  nk_ebin :: string
  nk_psftype :: string
  nk_coordsys :: string
  nk_irf_ver :: string
  nk_mktime :: string
  nk_fullpath :: bool

text \<open>One job configuration (the dictionary stored under a key of \<^verbatim>\<open>job_configs\<close>).\<close>

record job_config =
  jc_cmap :: string
  jc_expcube :: string
  jc_irfs :: string
  jc_bexpmap :: string
  jc_outfile :: string
  jc_logfile :: string
  jc_srcmdl :: string
  jc_evtype :: int
  jc_srcmin :: int
  jc_srcmax :: int

type_synonym job_table = "string \<rightharpoonup> job_config"

text \<open>
  What the collaborators return: the components read from \<^verbatim>\<open>args['comp']\<close>, the two
  dictionaries of \<^verbatim>\<open>make_catalog_comp_dict\<close> as their \<^verbatim>\<open>items()\<close> in iteration order,
  \<^verbatim>\<open>comp.make_key('{ebin_name}_{evtype_name}')\<close>, \<^verbatim>\<open>make_nfs_path\<close>, and the methods of
  \<^verbatim>\<open>NAME_FACTORY\<close> after \<^verbatim>\<open>update_base_dict(args['data'])\<close>. The values of the inner
  dictionaries of \<open>comp_info_dict\<close> are read through \<^verbatim>\<open>srcmdl_name\<close> and
  \<^verbatim>\<open>roi_model.sources\<close> only, so they are kept in the record of a catalog.
\<close>

record env =
  components :: "component list"
  catalog_info_dict :: "(string \<times> catalog_info) list"
  comp_info_dict :: "(string \<times> (string \<times> catalog_info) list) list"
  make_key :: "component \<Rightarrow> string"
  make_nfs_path :: "string \<Rightarrow> string"
  nf_srcmaps :: "name_keys \<Rightarrow> string"
  nf_ccube :: "name_keys \<Rightarrow> string"
  nf_ltcube :: "name_keys \<Rightarrow> string"
  nf_irfs :: "name_keys \<Rightarrow> string"
  nf_bexpcube :: "name_keys \<Rightarrow> string"
  nf_irf_ver :: string

text \<open>The two options of the generator that the code of the module itself reads.\<close>

record sg_args =
  nsrc :: int
  make_xml :: bool

text \<open>What \<^verbatim>\<open>_make_xml_files\<close> does to the outside: a printed line and a written file.\<close>

datatype effect = Print string | Write_xml string

subsection \<open>\<^verbatim>\<open>SrcmapsCatalog_SG._make_xml_files\<close>\<close>

definition xml_effects :: "catalog_info \<Rightarrow> effect list" where
  "xml_effects val =
     [Print (srcmdl_name val @ '' : '' @ fmt_0i 6 (int (length (roi_sources val)))),
      Write_xml (srcmdl_name val)]"

definition make_xml_files ::
  "(string \<times> catalog_info) list \<Rightarrow> (string \<times> (string \<times> catalog_info) list) list \<Rightarrow> effect list" where
  "make_xml_files cat_dict comp_dict =
     concat (map (\<lambda>(k, val). xml_effects val) cat_dict) @
     concat (map (\<lambda>(k, val). concat (map (\<lambda>(k2, val2). xml_effects val2) val)) comp_dict)"

subsection \<open>\<^verbatim>\<open>SrcmapsCatalog_SG.build_job_configs\<close>\<close>

text \<open>
  \<^verbatim>\<open>int(math.ceil(float(n_cat_src)/n_src_per_job))\<close>. The division is Python's float
  division: it raises at a zero divisor. The float quotient is modelled as a real number,
  which gives the same ceiling for every catalog of fewer than \<open>2^53\<close> sources.
\<close>

definition n_job_of :: "int \<Rightarrow> int \<Rightarrow> py_error + int" where
  "n_job_of n_cat_src n_src_per_job =
     (if n_src_per_job = 0 then Inl ZeroDivisionError
      else Inr \<lceil>real_of_int n_cat_src / real_of_int n_src_per_job\<rceil>)"

definition make_name_keys :: "env \<Rightarrow> string \<Rightarrow> component \<Rightarrow> name_keys" where
  "make_name_keys e catalog_name cmp =
     \<lparr>nk_zcut = ''zmax'' @ fmt_i (zmax cmp),
      nk_sourcekey = catalog_name,
      nk_ebin = ebin_name cmp,
      nk_psftype = evtype_name cmp,
      nk_coordsys = coordsys cmp,
      nk_irf_ver = nf_irf_ver e,
      nk_mktime = ''none'',
      nk_fullpath = True\<rparr>"

text \<open>The body of the innermost loop: the key and the configuration of job \<open>i_job\<close>.\<close>

definition job_entry ::
  "env \<Rightarrow> string \<Rightarrow> catalog_info \<Rightarrow> component \<Rightarrow> int \<Rightarrow> int \<Rightarrow> int \<Rightarrow> string \<times> job_config" where
  "job_entry e catalog_name catalog_info cmp n_src_per_job n_cat_src i_job =
     (let key = make_key e cmp;
          name_keys = make_name_keys e catalog_name cmp;
          full_key = key @ ''_'' @ fmt_0i 2 i_job;
          srcmin = i_job * n_src_per_job;
          srcmax = min (srcmin + n_src_per_job) n_cat_src;
          outfile = str_replace (nf_srcmaps e name_keys) ''.fits''
                      (''_'' @ fmt_0i 2 i_job @ ''.fits'');
          logfile = make_nfs_path e (str_replace outfile ''.fits'' ''.log'')
      in (full_key,
          \<lparr>jc_cmap = nf_ccube e name_keys,
           jc_expcube = nf_ltcube e name_keys,
           jc_irfs = nf_irfs e name_keys,
           jc_bexpmap = nf_bexpcube e name_keys,
           jc_outfile = outfile,
           jc_logfile = logfile,
           jc_srcmdl = srcmdl_name catalog_info,
           jc_evtype = evtype cmp,
           jc_srcmin = srcmin,
           jc_srcmax = srcmax\<rparr>))"

text \<open>The entries of one (catalog, component): \<^verbatim>\<open>for i_job in range(n_job)\<close>.\<close>

definition comp_jobs ::
  "env \<Rightarrow> string \<Rightarrow> catalog_info \<Rightarrow> component \<Rightarrow> int \<Rightarrow> int \<Rightarrow> (string \<times> job_config) list" where
  "comp_jobs e catalog_name catalog_info cmp n_src_per_job n_job =
     map (job_entry e catalog_name catalog_info cmp n_src_per_job
            (int (length (catalog_table catalog_info))))
         (py_range n_job)"

text \<open>\<^verbatim>\<open>job_configs[full_key] = ...\<close>, for a list of entries in order.\<close>

definition store :: "(string \<times> job_config) list \<Rightarrow> job_table \<Rightarrow> job_table" where
  "store entries job_configs = fold (\<lambda>(k, v) m. m(k \<mapsto> v)) entries job_configs"

text \<open>The entries of one catalog: \<^verbatim>\<open>for comp in components\<close>.\<close>

definition catalog_jobs ::
  "env \<Rightarrow> string \<Rightarrow> catalog_info \<Rightarrow> int \<Rightarrow> int \<Rightarrow> (string \<times> job_config) list" where
  "catalog_jobs e catalog_name catalog_info n_src_per_job n_job =
     concat (map (\<lambda>cmp. comp_jobs e catalog_name catalog_info cmp n_src_per_job n_job)
                 (components e))"

text \<open>
  \<^verbatim>\<open>for catalog_name, catalog_info in catalog_info_dict.items()\<close>. The number of jobs is
  computed first; a zero \<^verbatim>\<open>nsrc\<close> raises there and ends the generation.
\<close>

fun catalog_loop ::
  "env \<Rightarrow> int \<Rightarrow> (string \<times> catalog_info) list \<Rightarrow> job_table \<Rightarrow> py_error + job_table" where
  "catalog_loop e n_src_per_job [] job_configs = Inr job_configs"
| "catalog_loop e n_src_per_job ((catalog_name, catalog_info) # rest) job_configs =
     (case n_job_of (int (length (catalog_table catalog_info))) n_src_per_job of
        Inl err \<Rightarrow> Inl err
      | Inr n_job \<Rightarrow>
          catalog_loop e n_src_per_job rest
            (store (catalog_jobs e catalog_name catalog_info n_src_per_job n_job) job_configs))"

text \<open>
  The whole hook: the effects of \<^verbatim>\<open>_make_xml_files\<close> when \<^verbatim>\<open>make_xml\<close> is set, and the
  job table or the exception.
\<close>

definition build_job_configs :: "env \<Rightarrow> sg_args \<Rightarrow> effect list \<times> (py_error + job_table)" where
  "build_job_configs e args =
     (let n_src_per_job = nsrc args;
          effects = (if make_xml args
                     then make_xml_files (catalog_info_dict e) (comp_info_dict e) else [])
      in (effects, catalog_loop e n_src_per_job (catalog_info_dict e) Map.empty))"


subsection \<open>Data of the worker\<close>

text \<open>The parsed command line of \<^verbatim>\<open>GtSrcmapsCatalog\<close>; \<open>srcmax\<close> is \<open>-1\<close> by default.\<close>

record args =
  irfs :: string
  expcube :: string
  bexpmap :: string
  cmap :: string
  srcmdl :: string
  outfile :: string
  srcmin :: int
  srcmax :: int
  gzip :: bool

text \<open>
  The calls the loop makes on its collaborators, in the order of the source:
  \<^verbatim>\<open>like.logLike.saveSourceMaps(outfile)\<close>,
  \<^verbatim>\<open>copyAndUpdateDssKeywords(cmap, outfile, None, irfs)\<close>,
  \<^verbatim>\<open>source_factory.releaseSource(srcName)\<close>, \<^verbatim>\<open>like.logLike.addSource(source, False)\<close>,
  \<^verbatim>\<open>like.logLike.saveSourceMap_partial(outfile, source)\<close>,
  \<^verbatim>\<open>like.logLike.deleteSource(srcName)\<close>, and \<^verbatim>\<open>os.system(command)\<close> with the exit status
  it returned.
\<close>

datatype call =
    SaveSourceMaps string
  | CopyAndUpdateDssKeywords string string string
  | ReleaseSource string
  | AddSource string
  | SaveSourceMap_partial string string
  | DeleteSource string
  | Os_system string int

text \<open>
  The catalog sources held by the likelihood object \<^verbatim>\<open>like.logLike\<close>. It is built from
  the null model, so it holds none at the start; \<^verbatim>\<open>addSource\<close> puts one in,
  \<^verbatim>\<open>deleteSource\<close> takes the source of that name out, no other call changes it.
\<close>

fun exec :: "call \<Rightarrow> string list \<Rightarrow> string list" where
  "exec (AddSource n) srcs = srcs @ [n]"
| "exec (DeleteSource n) srcs = removeAll n srcs"
| "exec c srcs = srcs"

definition model_after :: "call list \<Rightarrow> string list" where
  "model_after cs = fold exec cs []"

subsection \<open>\<^verbatim>\<open>GtSrcmapsCatalog.run_analysis\<close>\<close>

text \<open>
  \<^verbatim>\<open>srcNames[i]\<close> on the string vector: a negative index counts from the end, an index
  outside the vector raises.
\<close>

definition get_item :: "string list \<Rightarrow> int \<Rightarrow> py_error + string" where
  "get_item srcNames i =
     (if 0 \<le> i \<and> i < int (length srcNames) then Inr (srcNames ! nat i)
      else if i < 0 \<and> - int (length srcNames) \<le> i
           then Inr (srcNames ! nat (int (length srcNames) + i))
           else Inl IndexError)"

text \<open>Lines 89 to 92: the upper bound of the loop.\<close>

definition max_idx_of :: "args \<Rightarrow> string list \<Rightarrow> int" where
  "max_idx_of a srcNames = (if srcmax a < 0 then int (length srcNames) else srcmax a)"

text \<open>
  Lines 96 to 100, the calls made when \<open>i == min_idx\<close>: the output file is created and
  the keywords of the counts map are copied into it.
\<close>

definition init_calls :: "args \<Rightarrow> call list" where
  "init_calls a =
     [SaveSourceMaps (outfile a), CopyAndUpdateDssKeywords (cmap a) (outfile a) (irfs a)]"

text \<open>Lines 103 to 106, the calls made for the source named \<open>srcName\<close>.\<close>

definition source_calls :: "args \<Rightarrow> string \<Rightarrow> call list" where
  "source_calls a srcName =
     [ReleaseSource srcName,
      AddSource srcName,
      SaveSourceMap_partial (outfile a) srcName,
      DeleteSource srcName]"

text \<open>
  One pass of the loop body for index \<open>i\<close>: the calls it makes, and the exception that
  ended it if there was one.
\<close>

definition loop_body :: "args \<Rightarrow> string list \<Rightarrow> int \<Rightarrow> int \<Rightarrow> call list \<times> py_error option" where
  "loop_body a srcNames min_idx i =
     (let first = (if i = min_idx then init_calls a else [])
      in case get_item srcNames i of
           Inl err \<Rightarrow> (first, Some err)
         | Inr srcName \<Rightarrow> (first @ source_calls a srcName, None))"

text \<open>\<^verbatim>\<open>for i in xrange(min_idx, max_idx)\<close>, over the indices still to visit.\<close>

fun loop :: "args \<Rightarrow> string list \<Rightarrow> int \<Rightarrow> int list \<Rightarrow> call list \<times> py_error option" where
  "loop a srcNames min_idx [] = ([], None)"
| "loop a srcNames min_idx (i # rest) =
     (case loop_body a srcNames min_idx i of
        (cs, Some err) \<Rightarrow> (cs, Some err)
      | (cs, None) \<Rightarrow>
          (case loop a srcNames min_idx rest of (cs', r) \<Rightarrow> (cs @ cs', r)))"

text \<open>
  The run of a worker on the source names \<open>srcNames\<close> that \<^verbatim>\<open>fetchSrcNames\<close> gave.
  \<open>os_system\<close> is the exit status the operating system returns for a command; the source
  drops it. The result is the trace of calls, and the exception that ended the run if
  there was one (\<open>None\<close>: the run reached its end).
\<close>

definition run_analysis ::
  "(string \<Rightarrow> int) \<Rightarrow> args \<Rightarrow> string list \<Rightarrow> call list \<times> py_error option" where
  "run_analysis os_system a srcNames =
     (let min_idx = srcmin a;
          max_idx = max_idx_of a srcNames
      in case loop a srcNames min_idx (xrange min_idx max_idx) of
           (cs, Some err) \<Rightarrow> (cs, Some err)
         | (cs, None) \<Rightarrow>
             (if gzip a
              then (cs @ [Os_system (''gzip -9 '' @ outfile a)
                            (os_system (''gzip -9 '' @ outfile a))], None)
              else (cs, None)))"

text \<open>The calls of a trace that add, save or delete a source, and the compression.\<close>

fun entity_call :: "call \<Rightarrow> bool" where
  "entity_call (AddSource n) = True"
| "entity_call (SaveSourceMap_partial f n) = True"
| "entity_call (DeleteSource n) = True"
| "entity_call c = False"

fun compress_call :: "call \<Rightarrow> bool" where
  "compress_call (Os_system c st) = True"
| "compress_call c = False"

text \<open>
  The sources the likelihood object is expected to hold just before a call: the source
  itself before its save and its delete, none before any other call.
\<close>

fun expected_before :: "call \<Rightarrow> string list" where
  "expected_before (SaveSourceMap_partial f n) = [n]"
| "expected_before (DeleteSource n) = [n]"
| "expected_before c = []"

text \<open>
  A trace is steady from the sources \<open>srcs\<close> when the likelihood object holds what is
  expected before every call of the trace, and nothing after the last one.
\<close>

fun steady :: "string list \<Rightarrow> call list \<Rightarrow> bool" where
  "steady srcs [] = (srcs = [])"
| "steady srcs (c # cs) = (srcs = expected_before c \<and> steady (exec c srcs) cs)"

text \<open>A trace is paired when the second call after every \<open>AddSource n\<close> is \<open>DeleteSource n\<close>.\<close>

fun paired :: "call list \<Rightarrow> bool" where
  "paired [] = True"
| "paired (c # cs) =
     ((case c of AddSource n \<Rightarrow> 2 \<le> length cs \<and> cs ! 1 = DeleteSource n | _ \<Rightarrow> True)
      \<and> paired cs)"

text \<open>
  Two environments give the same answers when they hold the same components and
  catalogs and their name factories agree on every set of keys the generator asks for,
  that is, on the keys of every (catalog, component) pair.
\<close>

definition same_answers :: "env \<Rightarrow> env \<Rightarrow> bool" where
  "same_answers e1 e2 =
     (components e1 = components e2
      \<and> catalog_info_dict e1 = catalog_info_dict e2
      \<and> comp_info_dict e1 = comp_info_dict e2
      \<and> nf_irf_ver e1 = nf_irf_ver e2
      \<and> make_nfs_path e1 = make_nfs_path e2
      \<and> (\<forall>cmp \<in> set (components e1). make_key e1 cmp = make_key e2 cmp)
      \<and> (\<forall>(catalog_name, ci) \<in> set (catalog_info_dict e1). \<forall>cmp \<in> set (components e1).
            nf_srcmaps e1 (make_name_keys e1 catalog_name cmp) =
              nf_srcmaps e2 (make_name_keys e1 catalog_name cmp)
          \<and> nf_ccube e1 (make_name_keys e1 catalog_name cmp) =
              nf_ccube e2 (make_name_keys e1 catalog_name cmp)
          \<and> nf_ltcube e1 (make_name_keys e1 catalog_name cmp) =
              nf_ltcube e2 (make_name_keys e1 catalog_name cmp)
          \<and> nf_irfs e1 (make_name_keys e1 catalog_name cmp) =
              nf_irfs e2 (make_name_keys e1 catalog_name cmp)
          \<and> nf_bexpcube e1 (make_name_keys e1 catalog_name cmp) =
              nf_bexpcube e2 (make_name_keys e1 catalog_name cmp)))"

subsection \<open>An example environment\<close>

text \<open>
  A small name factory and catalogs of a given size, used to run the definitions on
  concrete inputs.
\<close>

definition example_env :: env where
  "example_env =
     \<lparr>components = [\<lparr>zmax = 100, ebin_name = ''E0'', evtype_name = ''PSF3'',
                      coordsys = ''GAL'', evtype = 32\<rparr>],
      catalog_info_dict = [],
      comp_info_dict = [],
      make_key = (\<lambda>c. ebin_name c @ ''_'' @ evtype_name c),
      make_nfs_path = (\<lambda>s. s),
      nf_srcmaps = (\<lambda>k. ''srcmaps_'' @ nk_sourcekey k @ ''_'' @ nk_ebin k @ ''.fits''),
      nf_ccube = (\<lambda>k. ''ccube_'' @ nk_ebin k @ ''.fits''),
      nf_ltcube = (\<lambda>k. ''ltcube.fits''),
      nf_irfs = (\<lambda>k. ''P8R2'' @ nk_irf_ver k),
      nf_bexpcube = (\<lambda>k. ''bexpcube_'' @ nk_ebin k @ ''.fits''),
      nf_irf_ver = ''V6''\<rparr>"

definition example_catalog :: "nat \<Rightarrow> catalog_info" where
  "example_catalog n =
     \<lparr>srcmdl_name = ''catalog.xml'', catalog_table = replicate n ''row'', roi_sources = []\<rparr>"

definition example_env_with :: "(string \<times> catalog_info) list \<Rightarrow> env" where
  "example_env_with cats = example_env\<lparr>catalog_info_dict := cats\<rparr>"

definition example_args :: "int \<Rightarrow> int \<Rightarrow> bool \<Rightarrow> args" where
  "example_args lo hi gz =
     \<lparr>irfs = ''P8R2_V6'', expcube = ''ltcube.fits'', bexpmap = ''bexpcube.fits'',
      cmap = ''ccube.fits'', srcmdl = ''catalog.xml'', outfile = ''out.fits'',
      srcmin = lo, srcmax = hi, gzip = gz\<rparr>"

section \<open>Properties of the job generator\<close>

subsection \<open>Ranges and the number of jobs\<close>


lemma below_n_job:
  assumes "0 < k"
  shows "i < \<lceil>real_of_int n / real_of_int k\<rceil> \<longleftrightarrow> i * k < n"
proof -
  have "i < \<lceil>real_of_int n / real_of_int k\<rceil> \<longleftrightarrow> real_of_int i < real_of_int n / real_of_int k"
    by (rule less_ceiling_iff)
  also have "\<dots> \<longleftrightarrow> real_of_int i * real_of_int k < real_of_int n"
    using assms by (simp add: pos_less_divide_eq)
  also have "\<dots> \<longleftrightarrow> real_of_int (i * k) < real_of_int n" by simp
  also have "\<dots> \<longleftrightarrow> i * k < n" by (rule of_int_less_iff)
  finally show ?thesis .
qed

lemma n_job_nonneg: "0 < k \<Longrightarrow> 0 \<le> n \<Longrightarrow> 0 \<le> \<lceil>real_of_int n / real_of_int k\<rceil>"
proof -
  assume k: "0 < k" and n: "0 \<le> n"
  have "(- 1) * k < n" using k n by simp
  then have "- 1 < \<lceil>real_of_int n / real_of_int k\<rceil>"
    using below_n_job [OF k, of "- 1" n] by blast
  then show ?thesis by linarith
qed







lemma concat_map_Nil: "concat (map (\<lambda>x. []) xs) = []"
  by (induction xs) simp_all



section \<open>Properties of the worker\<close>

subsection \<open>The loop over a range\<close>

lemma xrange_Nil: "hi \<le> lo \<Longrightarrow> xrange lo hi = []"
  by (simp add: xrange_def)

lemma xrange_Cons: "lo < hi \<Longrightarrow> xrange lo hi = lo # xrange (lo + 1) hi"
proof -
  assume "lo < hi"
  then have d: "nat (hi - lo) = Suc (nat (hi - (lo + 1)))" by arith
  have "map (\<lambda>k. lo + int k) [0..<Suc (nat (hi - (lo + 1)))] =
        lo # map (\<lambda>k. lo + 1 + int k) [0..<nat (hi - (lo + 1))]"
    by (simp add: upt_conv_Cons map_Suc_upt [symmetric] del: upt_Suc)
  then show ?thesis by (simp add: xrange_def d)
qed

lemma set_xrange: "set (xrange lo hi) = {lo..<hi}"
proof
  show "set (xrange lo hi) \<subseteq> {lo..<hi}" by (auto simp: xrange_def)
next
  show "{lo..<hi} \<subseteq> set (xrange lo hi)"
  proof
    fix x assume x: "x \<in> {lo..<hi}"
    then have "nat (x - lo) < nat (hi - lo)" and "lo + int (nat (x - lo)) = x" by auto
    then have "x \<in> (\<lambda>k. lo + int k) ` {0..<nat (hi - lo)}"
      by (intro image_eqI [where x = "nat (x - lo)"]) auto
    then show "x \<in> set (xrange lo hi)" by (simp add: xrange_def)
  qed
qed

lemma xrange_ascending: "sorted_wrt (<) (xrange lo hi)"
  by (simp add: xrange_def sorted_wrt_map sorted_wrt_upt) 


lemma get_item_in_range:
  "0 \<le> i \<Longrightarrow> i < int (length srcNames) \<Longrightarrow> get_item srcNames i = Inr (srcNames ! nat i)"
  by (simp add: get_item_def Let_def)

lemma get_item_beyond:
  "int (length srcNames) \<le> i \<Longrightarrow> get_item srcNames i = Inl IndexError"
  by (simp add: get_item_def Let_def)

lemma loop_in_range:
  assumes "\<forall>i \<in> set idxs. 0 \<le> i \<and> i < int (length srcNames)" and "min_idx \<notin> set idxs"
  shows "loop a srcNames min_idx idxs =
           (concat (map (\<lambda>i. source_calls a (srcNames ! nat i)) idxs), None)"
  using assms
proof (induction idxs)
  case Nil
  then show ?case by simp
next
  case (Cons i idxs)
  then show ?case by (simp add: loop_body_def get_item_in_range)
qed

lemma loop_from_min:
  assumes "0 \<le> lo" and "lo < hi" and "hi \<le> int (length srcNames)"
  shows "loop a srcNames lo (xrange lo hi) =
           (init_calls a @ concat (map (\<lambda>i. source_calls a (srcNames ! nat i)) (xrange lo hi)),
            None)"
proof -
  have rest: "loop a srcNames lo (xrange (lo + 1) hi) =
           (concat (map (\<lambda>i. source_calls a (srcNames ! nat i)) (xrange (lo + 1) hi)), None)"
    using assms by (intro loop_in_range) (auto simp: set_xrange)
  show ?thesis
    using assms by (simp add: xrange_Cons [OF assms(2)] rest loop_body_def get_item_in_range)
qed

lemma filter_entity_source_calls:
  "filter entity_call (concat (map (\<lambda>i. source_calls a (f i)) idxs)) =
     concat (map (\<lambda>i. [AddSource (f i), SaveSourceMap_partial (outfile a) (f i),
                          DeleteSource (f i)]) idxs)"
  by (induction idxs) (simp_all add: source_calls_def)

text \<open>
  C3. When the range \<open>[srcmin, max_idx)\<close> is non-empty and lies inside the catalog, the run
  ends without an exception and its trace is: the two initialisation calls, then for each
  index of the range in ascending order the release, the add, the save and the delete of
  the source of that index, four calls for one source before any call for the next, then
  the compression if it was asked for. Kept to the add, save and delete calls the trace is
  add, save, delete of the first source, add, save, delete of the second, and so on.
\<close>

theorem run_analysis_order:
  assumes "0 \<le> srcmin a" and "srcmin a < max_idx_of a srcNames"
    and "max_idx_of a srcNames \<le> int (length srcNames)"
  shows "run_analysis os_system a srcNames =
           (init_calls a
            @ concat (map (\<lambda>i. source_calls a (srcNames ! nat i))
                          (xrange (srcmin a) (max_idx_of a srcNames)))
            @ (if gzip a then [Os_system (''gzip -9 '' @ outfile a)
                                 (os_system (''gzip -9 '' @ outfile a))] else []),
            None)
       \<and> filter entity_call (fst (run_analysis os_system a srcNames)) =
           concat (map (\<lambda>i. [AddSource (srcNames ! nat i),
                               SaveSourceMap_partial (outfile a) (srcNames ! nat i),
                               DeleteSource (srcNames ! nat i)])
                       (xrange (srcmin a) (max_idx_of a srcNames)))
       \<and> sorted_wrt (<) (xrange (srcmin a) (max_idx_of a srcNames))
       \<and> set (xrange (srcmin a) (max_idx_of a srcNames)) = {srcmin a..<max_idx_of a srcNames}"
proof -
  have run: "run_analysis os_system a srcNames =
           (init_calls a
            @ concat (map (\<lambda>i. source_calls a (srcNames ! nat i))
                          (xrange (srcmin a) (max_idx_of a srcNames)))
            @ (if gzip a then [Os_system (''gzip -9 '' @ outfile a)
                                 (os_system (''gzip -9 '' @ outfile a))] else []),
            None)"
    by (simp add: run_analysis_def Let_def loop_from_min [OF assms])
  have "filter entity_call (fst (run_analysis os_system a srcNames)) =
          filter entity_call (concat (map (\<lambda>i. source_calls a (srcNames ! nat i))
                          (xrange (srcmin a) (max_idx_of a srcNames))))"
    by (simp add: run init_calls_def)
  then show ?thesis
    using run by (simp only: filter_entity_source_calls xrange_ascending set_xrange simp_thms)
qed

text \<open>The theorem on the three sources \<open>E0\<close>, \<open>E1\<close>, \<open>E2\<close> with the default \<open>srcmax\<close>.\<close>

theorem run_analysis_order_witness:
  "run_analysis (\<lambda>c. 0) (example_args 0 (- 1) False) [''E0'', ''E1'', ''E2''] =
     ([SaveSourceMaps ''out.fits'',
       CopyAndUpdateDssKeywords ''ccube.fits'' ''out.fits'' ''P8R2_V6'',
       ReleaseSource ''E0'', AddSource ''E0'', SaveSourceMap_partial ''out.fits'' ''E0'',
       DeleteSource ''E0'',
       ReleaseSource ''E1'', AddSource ''E1'', SaveSourceMap_partial ''out.fits'' ''E1'',
       DeleteSource ''E1'',
       ReleaseSource ''E2'', AddSource ''E2'', SaveSourceMap_partial ''out.fits'' ''E2'',
       DeleteSource ''E2''], None)
   \<and> filter entity_call
        (fst (run_analysis (\<lambda>c. 0) (example_args 0 (- 1) False) [''E0'', ''E1'', ''E2''])) =
     [AddSource ''E0'', SaveSourceMap_partial ''out.fits'' ''E0'', DeleteSource ''E0'',
      AddSource ''E1'', SaveSourceMap_partial ''out.fits'' ''E1'', DeleteSource ''E1'',
      AddSource ''E2'', SaveSourceMap_partial ''out.fits'' ''E2'', DeleteSource ''E2'']"
proof -
  have x: "xrange 0 3 = [0, 1, 2]" by (simp add: xrange_def upt_rec)
  have m: "max_idx_of (example_args 0 (- 1) False) [''E0'', ''E1'', ''E2''] = 3"
    by (simp add: max_idx_of_def example_args_def)
  have s: "srcmin (example_args 0 (- 1) False) = 0" by (simp add: example_args_def)
  show ?thesis
    using run_analysis_order [of "example_args 0 (- 1) False" "[''E0'', ''E1'', ''E2'']" "\<lambda>c. 0"]
    unfolding m s x
    by (simp add: example_args_def init_calls_def source_calls_def)
qed


lemma loop_empty_range: "hi \<le> lo \<Longrightarrow> loop a srcNames lo (xrange lo hi) = ([], None)"
  by (simp add: xrange_Nil)

text \<open>
  C4, as it is written, asks that a run on an empty range still creates the output file.
  The run on the range \<open>[2, 2)\<close> of a catalog of three sources makes no call at all.
\<close>

theorem empty_range_counterexample:
  "run_analysis (\<lambda>c. 0) (example_args 2 2 False) [''E0'', ''E1'', ''E2''] = ([], None)
   \<and> SaveSourceMaps ''out.fits''
        \<notin> set (fst (run_analysis (\<lambda>c. 0) (example_args 2 2 False) [''E0'', ''E1'', ''E2'']))"
  by (simp add: run_analysis_def max_idx_of_def example_args_def xrange_def)

text \<open>
  C4, amended. When the range is empty (\<open>max_idx \<le> srcmin\<close>) the run ends without an
  exception; it makes neither of the two initialisation calls and no add, save or delete;
  its only call is the compression, when that was asked for.
\<close>

theorem empty_range_run:
  assumes "max_idx_of a srcNames \<le> srcmin a"
  shows "run_analysis os_system a srcNames =
           (if gzip a then [Os_system (''gzip -9 '' @ outfile a)
                              (os_system (''gzip -9 '' @ outfile a))] else [], None)
       \<and> set (fst (run_analysis os_system a srcNames)) \<inter> set (init_calls a) = {}
       \<and> filter entity_call (fst (run_analysis os_system a srcNames)) = []"
  using assms by (simp add: run_analysis_def Let_def loop_empty_range init_calls_def)

text \<open>The theorem on the range \<open>[2, 2)\<close> with compression asked for.\<close>

theorem empty_range_run_witness:
  "max_idx_of (example_args 2 2 True) [''E0'', ''E1'', ''E2''] \<le> srcmin (example_args 2 2 True)
   \<and> run_analysis (\<lambda>c. 1) (example_args 2 2 True) [''E0'', ''E1'', ''E2''] =
       ([Os_system ''gzip -9 out.fits'' 1], None)"
proof -
  have h: "max_idx_of (example_args 2 2 True) [''E0'', ''E1'', ''E2'']
             \<le> srcmin (example_args 2 2 True)"
    by (simp add: max_idx_of_def example_args_def)
  show ?thesis
    using h empty_range_run [OF h, of "\<lambda>c. 1"] by (simp add: example_args_def)
qed

lemma get_item_error: "get_item srcNames i = Inl err \<Longrightarrow> err = IndexError"
  by (simp add: get_item_def Let_def split: if_splits)

lemma loop_outcome:
  "snd (loop a srcNames min_idx idxs) =
     (if \<forall>i \<in> set idxs. \<exists>s. get_item srcNames i = Inr s then None else Some IndexError)"
proof (induction idxs)
  case Nil
  then show ?case by simp
next
  case (Cons i idxs)
  show ?case
  proof (cases "get_item srcNames i")
    case (Inl err)
    then show ?thesis using get_item_error [OF Inl] by (simp add: loop_body_def)
  next
    case (Inr s)
    then show ?thesis using Cons.IH
      by (cases "loop a srcNames min_idx idxs") (simp add: loop_body_def)
  qed
qed

lemma run_outcome:
  "snd (run_analysis os_system a srcNames) =
     snd (loop a srcNames (srcmin a) (xrange (srcmin a) (max_idx_of a srcNames)))"
  by (simp add: run_analysis_def Let_def split: prod.splits option.splits)

text \<open>
  C6. The upper bound of the loop is the number of source names when \<open>srcmax\<close> is negative
  and \<open>srcmax\<close> itself otherwise. Nothing clamps it: with a \<open>srcmax\<close> beyond the catalog and
  a non-empty range the loop reaches an index outside the vector and the run ends with
  \<open>IndexError\<close>, while the default bound with a non-negative \<open>srcmin\<close> never does.
\<close>

theorem loop_upper_bound:
  "max_idx_of a srcNames = (if srcmax a < 0 then int (length srcNames) else srcmax a)
   \<and> (int (length srcNames) < srcmax a \<and> srcmin a < srcmax a \<longrightarrow>
        snd (run_analysis os_system a srcNames) = Some IndexError)
   \<and> (0 \<le> srcmin a \<and> srcmax a < 0 \<longrightarrow> snd (run_analysis os_system a srcNames) = None)"
proof -
  have c1: "max_idx_of a srcNames = (if srcmax a < 0 then int (length srcNames) else srcmax a)"
    by (simp add: max_idx_of_def)
  have c2: "snd (run_analysis os_system a srcNames) = Some IndexError"
    if h: "int (length srcNames) < srcmax a" "srcmin a < srcmax a"
  proof -
    define j where "j = max (srcmin a) (int (length srcNames))"
    have m: "max_idx_of a srcNames = srcmax a" using h by (simp add: max_idx_of_def)
    have "j \<in> set (xrange (srcmin a) (srcmax a))" using h by (simp add: set_xrange j_def)
    moreover have "get_item srcNames j = Inl IndexError"
      by (rule get_item_beyond) (simp add: j_def)
    ultimately have "\<not> (\<forall>i \<in> set (xrange (srcmin a) (srcmax a)). \<exists>s. get_item srcNames i = Inr s)"
      by force
    then show ?thesis by (simp add: run_outcome m loop_outcome)
  qed
  have c3: "snd (run_analysis os_system a srcNames) = None" if h: "0 \<le> srcmin a" "srcmax a < 0"
  proof -
    have m: "max_idx_of a srcNames = int (length srcNames)" using h by (simp add: max_idx_of_def)
    have "\<forall>i \<in> set (xrange (srcmin a) (int (length srcNames))). \<exists>s. get_item srcNames i = Inr s"
      using h by (auto simp: set_xrange get_item_in_range)
    then show ?thesis by (simp add: run_outcome m loop_outcome)
  qed
  show ?thesis using c1 c2 c3 by blast
qed

text \<open>The theorem on three sources, with \<open>srcmax = 5\<close> and with the default \<open>srcmax = -1\<close>.\<close>

theorem loop_upper_bound_witness:
  "max_idx_of (example_args 0 5 False) [''E0'', ''E1'', ''E2''] = 5
   \<and> snd (run_analysis (\<lambda>c. 0) (example_args 0 5 False) [''E0'', ''E1'', ''E2'']) = Some IndexError
   \<and> max_idx_of (example_args 0 (- 1) False) [''E0'', ''E1'', ''E2''] = 3
   \<and> snd (run_analysis (\<lambda>c. 0) (example_args 0 (- 1) False) [''E0'', ''E1'', ''E2'']) = None"
  using loop_upper_bound [of "example_args 0 5 False" "[''E0'', ''E1'', ''E2'']" "\<lambda>c. 0"]
    loop_upper_bound [of "example_args 0 (- 1) False" "[''E0'', ''E1'', ''E2'']" "\<lambda>c. 0"]
  by (simp add: example_args_def)

subsection \<open>Compression\<close>

lemma no_compress_source_calls: "filter compress_call (source_calls a n) = []"
  by (simp add: source_calls_def)

lemma no_compress_init_calls: "filter compress_call (init_calls a) = []"
  by (simp add: init_calls_def)

lemma no_compress_loop_body: "filter compress_call (fst (loop_body a srcNames min_idx i)) = []"
  by (simp add: loop_body_def Let_def no_compress_source_calls no_compress_init_calls
      split: sum.splits)

lemma no_compress_loop: "filter compress_call (fst (loop a srcNames min_idx idxs)) = []"
proof (induction idxs)
  case Nil
  then show ?case by simp
next
  case (Cons i idxs)
  obtain cs r where b: "loop_body a srcNames min_idx i = (cs, r)" by (cases "loop_body a srcNames min_idx i")
  obtain cs' r' where l: "loop a srcNames min_idx idxs = (cs', r')" by (cases "loop a srcNames min_idx idxs")
  have "filter compress_call cs = []" using no_compress_loop_body [of a srcNames min_idx i] b by simp
  moreover have "filter compress_call cs' = []" using Cons.IH l by simp
  ultimately show ?case using b l by (cases r) simp_all
qed

lemma all_kept_loop:
  "filter (\<lambda>c. \<not> compress_call c) (fst (loop a srcNames min_idx idxs)) =
     fst (loop a srcNames min_idx idxs)"
  using no_compress_loop [of a srcNames min_idx idxs]
  by (simp add: filter_empty_conv)







subsection \<open>The sources held by the likelihood object\<close>

lemma steady_append: "steady srcs xs \<Longrightarrow> steady [] ys \<Longrightarrow> steady srcs (xs @ ys)"
  by (induction xs arbitrary: srcs) simp_all

lemma steady_init_calls: "steady [] (init_calls a)"
  by (simp add: init_calls_def)

lemma steady_source_calls: "steady [] (source_calls a n)"
  by (simp add: source_calls_def)

lemma steady_loop_body: "steady [] (fst (loop_body a srcNames min_idx i))"
  by (simp add: loop_body_def Let_def steady_append steady_init_calls
      steady_source_calls split: sum.splits)

lemma steady_loop: "steady [] (fst (loop a srcNames min_idx idxs))"
proof (induction idxs)
  case Nil
  then show ?case by simp
next
  case (Cons i idxs)
  obtain cs r where b: "loop_body a srcNames min_idx i = (cs, r)"
    by (cases "loop_body a srcNames min_idx i")
  obtain cs' r' where l: "loop a srcNames min_idx idxs = (cs', r')"
    by (cases "loop a srcNames min_idx idxs")
  have "steady [] cs" using steady_loop_body [of a srcNames min_idx i] b by simp
  moreover have "steady [] cs'" using Cons.IH l by simp
  ultimately show ?case using b l by (cases r) (simp_all add: steady_append)
qed

lemma steady_run: "steady [] (fst (run_analysis os_system a srcNames))"
proof -
  obtain cs r where l: "loop a srcNames (srcmin a) (xrange (srcmin a) (max_idx_of a srcNames)) = (cs, r)"
    by (cases "loop a srcNames (srcmin a) (xrange (srcmin a) (max_idx_of a srcNames))")
  have "steady [] (fst (loop a srcNames (srcmin a) (xrange (srcmin a) (max_idx_of a srcNames))))"
    by (rule steady_loop)
  then have "steady [] cs" by (simp add: l)
  then show ?thesis using l
    by (cases r) (simp_all add: run_analysis_def Let_def steady_append)
qed

lemma steady_end: "steady srcs cs \<Longrightarrow> fold exec cs srcs = []"
  by (induction cs arbitrary: srcs) simp_all

lemma steady_before:
  "steady srcs cs \<Longrightarrow> k < length cs \<Longrightarrow> fold exec (take k cs) srcs = expected_before (cs ! k)"
proof (induction cs arbitrary: srcs k)
  case Nil
  then show ?case by simp
next
  case (Cons c cs)
  show ?case
  proof (cases k)
    case 0
    then show ?thesis using Cons.prems by simp
  next
    case (Suc j)
    have "steady (exec c srcs) cs"
      using Cons.prems(1) unfolding steady.simps by (rule conjunct2)
    moreover have "j < length cs" using Cons.prems(2) Suc by simp
    ultimately have "fold exec (take j cs) (exec c srcs) = expected_before (cs ! j)"
      by (rule Cons.IH)
    then show ?thesis by (simp add: Suc)
  qed
qed

lemma expected_before_length: "length (expected_before c) \<le> 1"
  by (cases c) simp_all


lemma paired_append: "paired xs \<Longrightarrow> paired ys \<Longrightarrow> paired (xs @ ys)"
proof (induction xs)
  case Nil
  then show ?case by simp
next
  case (Cons c xs)
  then show ?case by (cases c) (auto simp: nth_append)
qed

lemma paired_loop_body: "paired (fst (loop_body a srcNames min_idx i))"
  by (simp add: loop_body_def Let_def init_calls_def source_calls_def split: sum.splits)

lemma paired_loop: "paired (fst (loop a srcNames min_idx idxs))"
proof (induction idxs)
  case Nil
  then show ?case by simp
next
  case (Cons i idxs)
  obtain cs r where b: "loop_body a srcNames min_idx i = (cs, r)"
    by (cases "loop_body a srcNames min_idx i")
  obtain cs' r' where l: "loop a srcNames min_idx idxs = (cs', r')"
    by (cases "loop a srcNames min_idx idxs")
  have "paired cs" using paired_loop_body [of a srcNames min_idx i] b by simp
  moreover have "paired cs'" using Cons.IH l by simp
  ultimately show ?case using b l by (cases r) (simp_all add: paired_append)
qed

lemma paired_run: "paired (fst (run_analysis os_system a srcNames))"
proof -
  obtain cs r where l: "loop a srcNames (srcmin a) (xrange (srcmin a) (max_idx_of a srcNames)) = (cs, r)"
    by (cases "loop a srcNames (srcmin a) (xrange (srcmin a) (max_idx_of a srcNames))")
  have "paired (fst (loop a srcNames (srcmin a) (xrange (srcmin a) (max_idx_of a srcNames))))"
    by (rule paired_loop)
  then have "paired cs" by (simp add: l)
  then show ?thesis using l
    by (cases r) (simp_all add: run_analysis_def Let_def paired_append)
qed

lemma paired_nth:
  "paired cs \<Longrightarrow> k < length cs \<Longrightarrow> cs ! k = AddSource n \<Longrightarrow>
     k + 2 < length cs \<and> cs ! (k + 2) = DeleteSource n"
proof (induction cs arbitrary: k)
  case Nil
  then show ?case by simp
next
  case (Cons c cs)
  show ?case
  proof (cases k)
    case 0
    then show ?thesis using Cons.prems by auto
  next
    case (Suc j)
    have "paired cs" using Cons.prems(1) unfolding paired.simps by (rule conjunct2)
    moreover have "j < length cs" "cs ! j = AddSource n" using Cons.prems Suc by simp_all
    ultimately have "j + 2 < length cs \<and> cs ! (j + 2) = DeleteSource n" by (rule Cons.IH)
    then show ?thesis by (simp add: Suc)
  qed
qed

text \<open>
  C10. In every run, finished or ended by an exception, the likelihood object holds at
  most one catalog source after any number of calls; before each call it holds what
  \<open>expected_before\<close> says: the source itself before its save and its delete, and none
  before every other call, so none when an iteration starts. Every \<open>AddSource n\<close> is
  followed two calls later, in the same iteration, by \<open>DeleteSource n\<close>, after which the
  object holds none; and it holds none at the end of the run.
\<close>

theorem one_source_at_a_time:
  fixes os_system :: "string \<Rightarrow> int" and a :: args and srcNames :: "string list"
  defines "cs \<equiv> fst (run_analysis os_system a srcNames)"
  shows "(\<forall>k \<le> length cs. length (model_after (take k cs)) \<le> 1)
       \<and> (\<forall>k < length cs. model_after (take k cs) = expected_before (cs ! k))
       \<and> (\<forall>k < length cs. \<forall>n. cs ! k = AddSource n \<longrightarrow>
             k + 2 < length cs \<and> cs ! (k + 2) = DeleteSource n
             \<and> model_after (take (k + 3) cs) = [])
       \<and> model_after cs = []"
proof -
  have st: "steady [] cs" unfolding cs_def by (rule steady_run)
  have pr: "paired cs" unfolding cs_def by (rule paired_run)
  have c4: "model_after cs = []" using steady_end [OF st] by (simp add: model_after_def)
  have c2: "model_after (take k cs) = expected_before (cs ! k)" if "k < length cs" for k
    using steady_before [OF st that] by (simp add: model_after_def)
  have c1: "length (model_after (take k cs)) \<le> 1" if "k \<le> length cs" for k
  proof (cases "k < length cs")
    case True
    then show ?thesis using c2 [OF True] expected_before_length [of "cs ! k"] by simp
  next
    case False
    then have "take k cs = cs" using that by simp
    then show ?thesis using c4 by simp
  qed
  have c3: "k + 2 < length cs \<and> cs ! (k + 2) = DeleteSource n
             \<and> model_after (take (k + 3) cs) = []"
    if "k < length cs" "cs ! k = AddSource n" for k n
  proof -
    have d: "k + 2 < length cs \<and> cs ! (k + 2) = DeleteSource n"
      using paired_nth [OF pr that] .
    then have b: "model_after (take (k + 2) cs) = [n]" using c2 [of "k + 2"] by simp
    have "take (k + 3) cs = take (k + 2) cs @ [cs ! (k + 2)]"
      using d take_Suc_conv_app_nth [of "k + 2" cs] by (simp add: numeral_3_eq_3)
    then have "model_after (take (k + 3) cs) = exec (DeleteSource n) (model_after (take (k + 2) cs))"
      using d by (simp add: model_after_def)
    then show ?thesis using d b by simp
  qed
  show ?thesis using c1 c2 c3 c4 by blast
qed

text \<open>The theorem on the run over two sources: \<open>E0\<close> is held after call 3 and gone after call 5.\<close>

theorem one_source_at_a_time_witness:
  "fst (run_analysis (\<lambda>c. 0) (example_args 0 (- 1) True) [''E0'', ''E1'']) ! 3 = AddSource ''E0''
   \<and> fst (run_analysis (\<lambda>c. 0) (example_args 0 (- 1) True) [''E0'', ''E1'']) ! 5 = DeleteSource ''E0''
   \<and> model_after (take 4 (fst (run_analysis (\<lambda>c. 0) (example_args 0 (- 1) True) [''E0'', ''E1'']))) = [''E0'']
   \<and> model_after (take 6 (fst (run_analysis (\<lambda>c. 0) (example_args 0 (- 1) True) [''E0'', ''E1'']))) = []
   \<and> model_after (fst (run_analysis (\<lambda>c. 0) (example_args 0 (- 1) True) [''E0'', ''E1''])) = []"
proof -
  have r: "fst (run_analysis (\<lambda>c. 0) (example_args 0 (- 1) True) [''E0'', ''E1'']) =
     [SaveSourceMaps ''out.fits'',
      CopyAndUpdateDssKeywords ''ccube.fits'' ''out.fits'' ''P8R2_V6'',
      ReleaseSource ''E0'', AddSource ''E0'', SaveSourceMap_partial ''out.fits'' ''E0'',
      DeleteSource ''E0'',
      ReleaseSource ''E1'', AddSource ''E1'', SaveSourceMap_partial ''out.fits'' ''E1'',
      DeleteSource ''E1'', Os_system ''gzip -9 out.fits'' 0]"
    by (simp add: run_analysis_def max_idx_of_def example_args_def xrange_def upt_rec
        loop_body_def get_item_def init_calls_def source_calls_def)
  let ?cs = "fst (run_analysis (\<lambda>c. 0) (example_args 0 (- 1) True) [''E0'', ''E1''])"
  note t = one_source_at_a_time [of "\<lambda>c. 0" "example_args 0 (- 1) True" "[''E0'', ''E1'']"]
  have t2: "\<forall>k < length ?cs. model_after (take k ?cs) = expected_before (?cs ! k)"
    using t by blast
  have t3: "\<forall>k < length ?cs. \<forall>n. ?cs ! k = AddSource n \<longrightarrow>
             k + 2 < length ?cs \<and> ?cs ! (k + 2) = DeleteSource n
             \<and> model_after (take (k + 3) ?cs) = []"
    using t by blast
  have t4: "model_after ?cs = []" using t by blast
  have l3: "3 < length ?cs" and l4: "4 < length ?cs" by (simp_all add: r)
  have a3: "?cs ! 3 = AddSource ''E0''" by (simp add: r)
  have a4: "?cs ! 4 = SaveSourceMap_partial ''out.fits'' ''E0''" by (simp add: r)
  have "3 + 2 < length ?cs \<and> ?cs ! (3 + 2) = DeleteSource ''E0''
          \<and> model_after (take (3 + 3) ?cs) = []"
    using t3 l3 a3 by blast
  then have d: "?cs ! 5 = DeleteSource ''E0''" and e: "model_after (take 6 ?cs) = []"
    by simp_all
  have "model_after (take 4 ?cs) = expected_before (?cs ! 4)" using t2 l4 by blast
  then have b: "model_after (take 4 ?cs) = [''E0'']" by (simp add: a4)
  show ?thesis using a3 d b e t4 by blast
qed

section \<open>More properties of the job generator\<close>

subsection \<open>A non-positive number of sources per job\<close>

lemma store_Nil: "store [] job_configs = job_configs"
  by (simp add: store_def)

lemma n_job_nonpositive:
  assumes "k < 0" and "0 \<le> n"
  shows "\<lceil>real_of_int n / real_of_int k\<rceil> \<le> 0"
proof -
  have "real_of_int n / real_of_int k \<le> 0"
    using assms by (simp add: divide_nonneg_neg)
  then show ?thesis by (simp add: ceiling_le_iff)
qed

lemma catalog_jobs_none: "n_job \<le> 0 \<Longrightarrow> catalog_jobs e catalog_name ci k n_job = []"
  by (simp add: catalog_jobs_def comp_jobs_def py_range_def concat_map_Nil)

lemma catalog_loop_negative:
  "k < 0 \<Longrightarrow> catalog_loop e k cats job_configs = Inr job_configs"
proof (induction cats arbitrary: job_configs)
  case Nil
  then show ?case by simp
next
  case (Cons c cats)
  obtain catalog_name ci where c: "c = (catalog_name, ci)" by (cases c)
  have "\<lceil>real_of_int (int (length (catalog_table ci))) / real_of_int k\<rceil> \<le> 0"
    using Cons.prems by (intro n_job_nonpositive) simp_all
  then show ?case using Cons
    by (simp add: c n_job_of_def catalog_jobs_none store_Nil)
qed

lemma catalog_loop_zero:
  "cats \<noteq> [] \<Longrightarrow> catalog_loop e 0 cats job_configs = Inl ZeroDivisionError"
  by (cases cats) (auto simp: n_job_of_def)

text \<open>
  C5, as it is written, asks that every \<open>nsrc \<le> 0\<close> ends the generation with an error.
  With \<open>nsrc = -5\<close> and a catalog of ten sources the generation returns the empty table.
\<close>

theorem nonpositive_nsrc_counterexample:
  "snd (build_job_configs (example_env_with [(''3FGL'', example_catalog 10)])
         \<lparr>nsrc = - 5, make_xml = False\<rparr>) = Inr Map.empty"
  by (simp add: build_job_configs_def example_env_with_def catalog_loop_negative
      del: catalog_loop.simps)

text \<open>
  C5, amended. Nothing checks \<open>nsrc\<close>. With \<open>nsrc = 0\<close> the division of the first catalog
  raises \<open>ZeroDivisionError\<close> and the generation ends there without a table (when there is
  no catalog at all the division is never reached and the table is empty). With
  \<open>nsrc < 0\<close> no exception is raised: the number of jobs is not positive, no job is made,
  and the generation returns the empty table.
\<close>

theorem nonpositive_nsrc:
  "(nsrc args = 0 \<and> catalog_info_dict e \<noteq> [] \<longrightarrow>
      snd (build_job_configs e args) = Inl ZeroDivisionError)
   \<and> (nsrc args = 0 \<and> catalog_info_dict e = [] \<longrightarrow>
      snd (build_job_configs e args) = Inr Map.empty)
   \<and> (nsrc args < 0 \<longrightarrow> snd (build_job_configs e args) = Inr Map.empty)"
  by (simp add: build_job_configs_def Let_def catalog_loop_negative catalog_loop_zero)

text \<open>The theorem at \<open>nsrc = 0\<close> with one catalog and with none, and at \<open>nsrc = -1\<close>.\<close>

theorem nonpositive_nsrc_witness:
  "snd (build_job_configs (example_env_with [(''3FGL'', example_catalog 10)])
         \<lparr>nsrc = 0, make_xml = False\<rparr>) = Inl ZeroDivisionError
   \<and> snd (build_job_configs (example_env_with [])
         \<lparr>nsrc = 0, make_xml = False\<rparr>) = Inr Map.empty
   \<and> snd (build_job_configs (example_env_with [(''3FGL'', example_catalog 10)])
         \<lparr>nsrc = - 1, make_xml = False\<rparr>) = Inr Map.empty"
  using nonpositive_nsrc [of "\<lparr>nsrc = 0, make_xml = False\<rparr>"
          "example_env_with [(''3FGL'', example_catalog 10)]"]
    nonpositive_nsrc [of "\<lparr>nsrc = 0, make_xml = False\<rparr>" "example_env_with []"]
    nonpositive_nsrc [of "\<lparr>nsrc = - 1, make_xml = False\<rparr>"
          "example_env_with [(''3FGL'', example_catalog 10)]"]
  by (simp add: example_env_with_def)

subsection \<open>The \<^verbatim>\<open>make_xml\<close> flag\<close>

text \<open>
  C9. The result of the generation, table or exception, is the same whatever the
  \<open>make_xml\<close> flag; the flag decides only the effects: none without it, the printed lines
  and written files of \<^verbatim>\<open>_make_xml_files\<close> with it.
\<close>

theorem make_xml_frame:
  "snd (build_job_configs e (args\<lparr>make_xml := True\<rparr>)) =
     snd (build_job_configs e (args\<lparr>make_xml := False\<rparr>))
   \<and> snd (build_job_configs e (args\<lparr>make_xml := b\<rparr>)) = snd (build_job_configs e args)
   \<and> fst (build_job_configs e (args\<lparr>make_xml := False\<rparr>)) = []
   \<and> fst (build_job_configs e (args\<lparr>make_xml := True\<rparr>)) =
       make_xml_files (catalog_info_dict e) (comp_info_dict e)"
  by (simp add: build_job_configs_def Let_def)

subsection \<open>The keys of the table\<close>

text \<open>
  C2 on two catalogs of one source each, one component and \<open>nsrc = 1\<close>. There are two
  (catalog, component, range) combinations, but the key is built from the component and
  the job number only, so both jobs get the key \<open>E0_PSF3_00\<close>: the table holds a single
  entry, the job of the catalog visited last.
\<close>

theorem key_collision:
  "snd (build_job_configs
         (example_env_with [(''3FGL'', example_catalog 1), (''extended'', example_catalog 1)])
         \<lparr>nsrc = 1, make_xml = False\<rparr>) =
   Inr [''E0_PSF3_00'' \<mapsto>
         \<lparr>jc_cmap = ''ccube_E0.fits'', jc_expcube = ''ltcube.fits'', jc_irfs = ''P8R2V6'',
          jc_bexpmap = ''bexpcube_E0.fits'',
          jc_outfile = ''srcmaps_extended_E0_00.fits'',
          jc_logfile = ''srcmaps_extended_E0_00.log'',
          jc_srcmdl = ''catalog.xml'', jc_evtype = 32, jc_srcmin = 0, jc_srcmax = 1\<rparr>]"
  by (simp add: build_job_configs_def example_env_with_def example_env_def example_catalog_def
      n_job_of_def catalog_jobs_def comp_jobs_def py_range_def job_entry_def Let_def
      make_name_keys_def store_def fmt_0i_def zero_pad_def digits.simps str_replace_def
      replace_from.simps)

subsection \<open>Determinism\<close>

lemma same_answers_refl: "same_answers e e"
  by (simp add: same_answers_def split: prod.splits)






end
